theory Spec2Isabelle
  imports Main
begin

section \<open>Step definitions of pytest-bdd-ng: data model\<close>

text \<open>
  Shallow embedding of \<^verbatim>\<open>src/pytest_bdd/steps.py\<close>: the step definition record, the
  registry chain, the matcher with its three tiers, and the decorator builder.
\<close>

text \<open>
  Modelled from the spec: the module \<^verbatim>\<open>pytest_bdd.const\<close> with \<^verbatim>\<open>StepType\<close> is not part
  of the sources at hand. The specification gives a closed enumeration of six
  pairwise different categories.
\<close>

datatype StepType = CONTEXT | ACTION | OUTCOME | CONJUNCTION | UNKNOWN | UNSPECIFIED

text \<open>
  Modelled from the spec: \<^verbatim>\<open>pytest_bdd.parsers.StepParser\<close> is an external collaborator with
  the two capabilities \<^verbatim>\<open>is_matching(text) -> bool\<close> and
  \<^verbatim>\<open>parse_arguments(text) -> mapping or absent\<close>. Python values are the type \<open>'v\<close>.
\<close>

record 'v StepParser =
  is_matching :: "string \<Rightarrow> bool"
  parse_arguments :: "string \<Rightarrow> (string \<rightharpoonup> 'v) option"

text \<open>
  Modelled from the spec: \<^verbatim>\<open>pytest_bdd.model.Step\<close> is one line of scenario text with a
  declared category and free text. The code reads \<^verbatim>\<open>step.type\<close>, \<^verbatim>\<open>step.text\<close> and
  \<^verbatim>\<open>step.name\<close>. Features and scenarios are opaque to this module.
\<close>

record Step =
  type :: StepType
  "text" :: string
  name :: string

type_synonym Feature = string
type_synonym Scenario = string

text \<open>
  The parameter-injection mode is \<^verbatim>\<open>set[str] | dict[str, str] | Any\<close>; this module only
  stores it.
\<close>

datatype ParamsFixturesMapping =
  InjectFlag bool
| InjectSet "string list"
| InjectDict "(string \<times> string) list"

text \<open>
  \<^verbatim>\<open>StepHandler.Definition\<close> is declared \<^verbatim>\<open>@attrs(auto_attribs=True, eq=False)\<close>: with
  \<^verbatim>\<open>eq=False\<close> attrs generates neither \<^verbatim>\<open>__eq__\<close> nor \<^verbatim>\<open>__hash__\<close>, so \<^verbatim>\<open>==\<close> and \<^verbatim>\<open>hash\<close>
  are those of \<^verbatim>\<open>object\<close>, by identity. The field \<open>obj_id\<close> is that identity (what
  \<^verbatim>\<open>id(definition)\<close> returns); the other eight fields are the attributes of the class in
  their order. The handler \<^verbatim>\<open>func\<close> is a reference, given by its name; \<^verbatim>\<open>liberal\<close> is
  \<^verbatim>\<open>None\<close>, \<^verbatim>\<open>True\<close> or \<^verbatim>\<open>False\<close>. Converters are taken as total functions on values.
\<close>

record 'v Definition =
  obj_id :: nat
  func :: string
  type' :: "StepType option"
  parser :: "'v StepParser"
  converters :: "string \<rightharpoonup> ('v \<Rightarrow> 'v)"
  params_fixtures_mapping :: ParamsFixturesMapping
  param_defaults :: "string \<rightharpoonup> 'v"
  target_fixtures :: "string list"
  liberal :: "bool option"

text \<open>
  \<^verbatim>\<open>StepHandler.Registry\<close>: a Python \<^verbatim>\<open>set\<close> of definitions and a parent (\<^verbatim>\<open>None\<close> by
  default). The set is kept as the list of its members in the order in which iterating
  the set yields them; as membership is by identity, no two entries share an \<open>obj_id\<close>.
\<close>

datatype 'v Registry =
  Registry (registry: "'v Definition list") (parent: "'v Registry option")

text \<open>
  The configuration view: \<^verbatim>\<open>config.option.liberal_steps\<close> (the command-line toggle,
  \<^verbatim>\<open>None\<close> when not given) and \<^verbatim>\<open>config.getini("liberal_steps")\<close>.
\<close>

record Config =
  option_liberal_steps :: "bool option"
  getini_liberal_steps :: bool

text \<open>
  \<^verbatim>\<open>StepHandler.Matcher\<close>. The five attributes declared \<^verbatim>\<open>init=False\<close> are assigned at
  the start of every call before anything reads them; the record holds their current
  values. \<^verbatim>\<open>step_type_context\<close> defaults to \<^verbatim>\<open>None\<close>.
\<close>

record 'v Matcher =
  config :: Config
  feature :: Feature
  pickle :: Scenario
  step :: Step
  previous_step :: "Step option"
  step_registry :: "'v Registry option"
  step_type_context :: "StepType option"

datatype error = MatchNotFoundError

text \<open>
  The two \<^verbatim>\<open>PytestBDDStepDefinitionWarning\<close>s of the module. The first one carries the
  list of alternatives that its message prints.
\<close>

datatype 'v warning =
  Alternative_step_definitions_are_found "'v Definition list"
| Both_target_fixture_and_target_fixtures_are_specified

section \<open>The matcher\<close>

text \<open>
  Lines 240 to 246 of \<^verbatim>\<open>Matcher.__call__\<close>: the new value of \<^verbatim>\<open>step_type_context\<close> from
  the old one and the type of the current step.
\<close>

definition propagate_context :: "StepType option \<Rightarrow> StepType \<Rightarrow> StepType option" where
  "propagate_context ctx ty =
     (let ctx1 = (if ty \<in> {CONJUNCTION, UNKNOWN} \<and> ctx \<noteq> None then ctx else Some ty)
      in if ctx1 = Some CONJUNCTION then Some UNKNOWN else ctx1)"

definition strict_matcher :: "'v Matcher \<Rightarrow> 'v Definition \<Rightarrow> bool" where
  "strict_matcher self step_definition =
     (type' step_definition = step_type_context self
      \<and> is_matching (parser step_definition) (text (step self)))"

definition unspecified_matcher :: "'v Matcher \<Rightarrow> 'v Definition \<Rightarrow> bool" where
  "unspecified_matcher self step_definition =
     ((step_type_context self = Some UNSPECIFIED \<or> type' step_definition = Some UNSPECIFIED)
      \<and> is_matching (parser step_definition) (text (step self)))"

definition is_step_definition_liberal :: "'v Matcher \<Rightarrow> 'v Definition \<Rightarrow> bool" where
  "is_step_definition_liberal self step_definition =
     (case liberal step_definition of
        None \<Rightarrow>
          (case option_liberal_steps (config self) of
             Some b \<Rightarrow> b
           | None \<Rightarrow> getini_liberal_steps (config self))
      | Some b \<Rightarrow> b)"

definition liberal_matcher :: "'v Matcher \<Rightarrow> 'v Definition \<Rightarrow> bool" where
  "liberal_matcher self step_definition =
     list_all (\<lambda>b. b)
       [\<not> unspecified_matcher self step_definition,
        is_step_definition_liberal self step_definition,
        type' step_definition \<noteq> step_type_context self,
        is_matching (parser step_definition) (text (step self))]"

text \<open>
  The generator \<^verbatim>\<open>find_step_definition_matches\<close>. Its loops carry the flag
  \<^verbatim>\<open>found_matches\<close> and the sequence of definitions yielded so far.
  \<open>registry_loop\<close> is \<^verbatim>\<open>for step_definition in registry\<close> for one matcher,
  \<open>matchers_loop\<close> is \<^verbatim>\<open>for matcher in matchers\<close> with its \<^verbatim>\<open>break\<close>.
\<close>

fun registry_loop ::
  "('v Definition \<Rightarrow> bool) \<Rightarrow> 'v Definition list \<Rightarrow> bool \<times> 'v Definition list
   \<Rightarrow> bool \<times> 'v Definition list" where
  "registry_loop matcher [] st = st"
| "registry_loop matcher (step_definition # rest) (found_matches, yielded) =
     (if matcher step_definition
      then registry_loop matcher rest (True, yielded @ [step_definition])
      else registry_loop matcher rest (found_matches, yielded))"

fun matchers_loop ::
  "('v Definition \<Rightarrow> bool) list \<Rightarrow> 'v Definition list \<Rightarrow> bool \<times> 'v Definition list
   \<Rightarrow> bool \<times> 'v Definition list" where
  "matchers_loop [] defs st = st"
| "matchers_loop (matcher # rest) defs st =
     (let st1 = registry_loop matcher defs st
      in if fst st1 then st1 else matchers_loop rest defs st1)"

text \<open>
  \<^verbatim>\<open>if registry:\<close> is false for \<^verbatim>\<open>None\<close> only: the class \<^verbatim>\<open>Registry\<close> defines neither
  \<^verbatim>\<open>__bool__\<close> nor \<^verbatim>\<open>__len__\<close>, so every registry object is true, the empty one too.
  Every registry object has the attribute \<^verbatim>\<open>parent\<close> (\<^verbatim>\<open>None\<close> at the end of a chain), so
  the \<^verbatim>\<open>AttributeError\<close> that the recursive call is guarded against does not arise here.
\<close>

fun find_step_definition_matches ::
  "'v Registry option \<Rightarrow> ('v Definition \<Rightarrow> bool) list \<Rightarrow> 'v Definition list" where
  "find_step_definition_matches None matchers = []"
| "find_step_definition_matches (Some (Registry defs par)) matchers =
     (let st = matchers_loop matchers defs (False, [])
      in if \<not> fst st
         then snd st @ find_step_definition_matches par matchers
         else snd st)"

text \<open>
  Lines 248 to 252 of \<^verbatim>\<open>Matcher.__call__\<close>: the list \<^verbatim>\<open>step_definitions\<close> that the
  matcher collects from a registry with its three matchers in their order.
\<close>

definition step_definitions :: "'v Matcher \<Rightarrow> 'v Registry option \<Rightarrow> 'v Definition list" where
  "step_definitions self reg =
     find_step_definition_matches reg
       [strict_matcher self, unspecified_matcher self, liberal_matcher self]"

text \<open>
  \<^verbatim>\<open>Matcher.__call__\<close> returns the definition or raises, may emit a warning, and leaves
  the matcher with new attribute values: the result is the triple of the outcome, the
  warnings emitted and the matcher after the call.
\<close>

definition call ::
  "'v Matcher \<Rightarrow> Feature \<Rightarrow> Scenario \<Rightarrow> Step \<Rightarrow> Step option \<Rightarrow> 'v Registry option
   \<Rightarrow> (error + 'v Definition) \<times> 'v warning list \<times> 'v Matcher" where
  "call self0 feature' pickle' step' previous_step' step_registry' =
     (let self1 = self0\<lparr>feature := feature', pickle := pickle', step := step',
                        previous_step := previous_step', step_registry := step_registry'\<rparr>;
          self2 = self1\<lparr>step_type_context :=
                          propagate_context (step_type_context self1) (type (step self1))\<rparr>;
          found = step_definitions self2 (step_registry self2)
      in case found of
           [] \<Rightarrow> (Inl MatchNotFoundError, [], self2)
         | d # ds \<Rightarrow>
             (Inr d,
              (if length found > 1 then [Alternative_step_definitions_are_found found] else []),
              self2))"

text \<open>The three components of the result of a call.\<close>

definition outcome ::
  "(error + 'v Definition) \<times> 'v warning list \<times> 'v Matcher \<Rightarrow> error + 'v Definition" where
  "outcome r = fst r"

definition warnings_of ::
  "(error + 'v Definition) \<times> 'v warning list \<times> 'v Matcher \<Rightarrow> 'v warning list" where
  "warnings_of r = fst (snd r)"

definition matcher_after ::
  "(error + 'v Definition) \<times> 'v warning list \<times> 'v Matcher \<Rightarrow> 'v Matcher" where
  "matcher_after r = snd (snd r)"

text \<open>All definitions held along a registry chain, nearest registry first.\<close>

fun chain_definitions :: "'v Registry option \<Rightarrow> 'v Definition list" where
  "chain_definitions None = []"
| "chain_definitions (Some (Registry defs par)) = defs @ chain_definitions par"

section \<open>Definitions and their parameters\<close>

text \<open>
  \<^verbatim>\<open>Definition.get_parameters\<close>: \<^verbatim>\<open>parse_arguments(step.name) or {}\<close>, each parsed value
  through \<^verbatim>\<open>self.converters.get(arg, lambda _: _)\<close>, unpacked after \<^verbatim>\<open>self.param_defaults\<close>
  in one dict display, where the later entry of a key replaces the earlier one.
\<close>

definition get_parameters :: "'v Definition \<Rightarrow> Step \<Rightarrow> (string \<rightharpoonup> 'v)" where
  "get_parameters self step' =
     (let parsed_arguments =
            (case parse_arguments (parser self) (name step') of
               None \<Rightarrow> Map.empty
             | Some args \<Rightarrow> args)
      in param_defaults self ++
         (\<lambda>arg. case parsed_arguments arg of
                  None \<Rightarrow> None
                | Some val \<Rightarrow>
                    Some ((case converters self arg of None \<Rightarrow> (\<lambda>x. x) | Some c \<Rightarrow> c) val)))"

section \<open>Registries and registration\<close>

text \<open>
  \<^verbatim>\<open>set.add\<close> on a set of definitions: an object that is already a member (the same
  identity) leaves the set as it is, any other object becomes a new member. Python
  promises no iteration order for a set: the iteration follows the slots of the hash
  table, which depend on the hashes of the members (for these objects, their addresses)
  and on the size of the table, so a new member can come anywhere and the old members
  can change places. The parameter \<open>slot\<close> stands for the table: for the members of a
  set it gives every member its rank in the iteration, and the members are listed by
  rank. Every order of the members is the order of some \<open>slot\<close>.
\<close>

definition set_add ::
  "('v Definition list \<Rightarrow> 'v Definition \<Rightarrow> nat) \<Rightarrow> 'v Definition \<Rightarrow> 'v Definition list
   \<Rightarrow> 'v Definition list" where
  "set_add slot x s =
     (if obj_id x \<in> set (map obj_id s) then s else sort_key (slot (x # s)) (x # s))"

text \<open>
  The caller's module namespace, as far as registration reads it: the name
  \<^verbatim>\<open>step_registry\<close> is bound to the fixture of a registry, which stands here for the
  registry in its \<^verbatim>\<open>__registry__\<close> attribute.
\<close>

type_synonym 'v caller_locals = "string \<rightharpoonup> 'v Registry"

definition setdefault_step_registry_fixture ::
  "'v caller_locals \<Rightarrow> 'v Registry \<times> 'v caller_locals" where
  "setdefault_step_registry_fixture caller_locals =
     (case caller_locals ''step_registry'' of
        None \<Rightarrow>
          (let built_registry = Registry [] None
           in (built_registry, caller_locals(''step_registry'' \<mapsto> built_registry)))
      | Some fixture \<Rightarrow> (fixture, caller_locals))"

definition register_step_definition ::
  "('v Definition list \<Rightarrow> 'v Definition \<Rightarrow> nat) \<Rightarrow> 'v Definition \<Rightarrow> 'v caller_locals
   \<Rightarrow> 'v caller_locals" where
  "register_step_definition slot step_definition caller_locals =
     (case setdefault_step_registry_fixture caller_locals of
        (fixture, locals1) \<Rightarrow>
          locals1(''step_registry'' \<mapsto>
            Registry (set_add slot step_definition (registry fixture)) (parent fixture)))"

section \<open>The decorator builder\<close>

text \<open>
  \<^verbatim>\<open>list(OrderedSet(xs))\<close>: the constructor adds the items one by one, and adding an
  item that is already there changes nothing.
\<close>

definition ordered_set :: "'a list \<Rightarrow> 'a list" where
  "ordered_set xs = fold (\<lambda>x acc. if x \<in> set acc then acc else acc @ [x]) xs []"

text \<open>
  What a decorator application reads and writes outside its arguments: the next fresh
  object identity, the slots of the hash tables of the process, the namespace of the
  calling module, and the attribute \<^verbatim>\<open>__pytest_bdd_step_definitions__\<close> of every handler
  (the empty set where the attribute is not there yet).
\<close>

record 'v Env =
  next_id :: nat
  table_slot :: "'v Definition list \<Rightarrow> 'v Definition \<Rightarrow> nat"
  caller_module_locals :: "'v caller_locals"
  pytest_bdd_step_definitions :: "string \<Rightarrow> 'v Definition list"

text \<open>
  The inner function \<^verbatim>\<open>decorator\<close> with the variables it closes over as its first
  arguments. The resolution of a pattern-like value to a parser, \<^verbatim>\<open>get_parser\<close>, is an
  external collaborator and a parameter here.
\<close>

definition decorator ::
  "('p \<Rightarrow> 'v StepParser) \<Rightarrow> StepType option \<Rightarrow> 'p \<Rightarrow> (string \<rightharpoonup> ('v \<Rightarrow> 'v))
   \<Rightarrow> ParamsFixturesMapping \<Rightarrow> (string \<rightharpoonup> 'v) \<Rightarrow> string list \<Rightarrow> bool option
   \<Rightarrow> string \<Rightarrow> 'v Env \<Rightarrow> string \<times> 'v Env" where
  "decorator get_parser step_type step_parserlike converters' params_fixtures_mapping'
       param_defaults' target_fixtures' liberal' step_func env =
     (let step_definiton =
            \<lparr>obj_id = next_id env,
             func = step_func,
             type' = step_type,
             parser = get_parser step_parserlike,
             converters = converters',
             params_fixtures_mapping = params_fixtures_mapping',
             param_defaults = param_defaults',
             target_fixtures = target_fixtures',
             liberal = liberal'\<rparr>;
          env1 = env\<lparr>next_id := Suc (next_id env)\<rparr>;
          env2 = env1\<lparr>pytest_bdd_step_definitions :=
                   (pytest_bdd_step_definitions env1)
                     (step_func := set_add (table_slot env1) step_definiton
                                     (pytest_bdd_step_definitions env1 step_func))\<rparr>
      in (step_func,
          env2\<lparr>caller_module_locals :=
                 register_step_definition (table_slot env2) step_definiton
                   (caller_module_locals env2)\<rparr>))"

text \<open>
  \<^verbatim>\<open>StepHandler.decorator_builder\<close> returns the decorator and may warn: the result is the
  list of warnings emitted by the call and the decorator.
\<close>

definition decorator_builder ::
  "('p \<Rightarrow> 'v StepParser) \<Rightarrow> StepType option \<Rightarrow> 'p \<Rightarrow> (string \<rightharpoonup> ('v \<Rightarrow> 'v)) option
   \<Rightarrow> string option \<Rightarrow> string list option \<Rightarrow> ParamsFixturesMapping
   \<Rightarrow> (string \<rightharpoonup> 'v) option \<Rightarrow> bool option
   \<Rightarrow> 'v warning list \<times> (string \<Rightarrow> 'v Env \<Rightarrow> string \<times> 'v Env)" where
  "decorator_builder get_parser step_type step_parserlike converters' target_fixture
       target_fixtures' params_fixtures_mapping' param_defaults' liberal' =
     (let converters1 = (case converters' of None \<Rightarrow> Map.empty | Some c \<Rightarrow> c);
          param_defaults1 = (case param_defaults' of None \<Rightarrow> Map.empty | Some d \<Rightarrow> d);
          warnings =
            (if target_fixture \<noteq> None \<and> target_fixtures' \<noteq> None
             then [Both_target_fixture_and_target_fixtures_are_specified] else []);
          target_fixtures1 =
            ordered_set
              ((case target_fixture of Some t \<Rightarrow> [t] | None \<Rightarrow> []) @
               (case target_fixtures' of Some ts \<Rightarrow> ts | None \<Rightarrow> []))
      in (warnings,
          decorator get_parser step_type step_parserlike converters1 params_fixtures_mapping'
            param_defaults1 target_fixtures1 liberal'))"

text \<open>The four public decorators; the names \<^verbatim>\<open>when\<close> and \<^verbatim>\<open>then\<close> are keywords here.\<close>

definition given_decorator ::
  "('p \<Rightarrow> 'v StepParser) \<Rightarrow> 'p \<Rightarrow> (string \<rightharpoonup> ('v \<Rightarrow> 'v)) option
   \<Rightarrow> string option \<Rightarrow> string list option \<Rightarrow> ParamsFixturesMapping
   \<Rightarrow> (string \<rightharpoonup> 'v) option \<Rightarrow> bool option
   \<Rightarrow> 'v warning list \<times> (string \<Rightarrow> 'v Env \<Rightarrow> string \<times> 'v Env)" where
  "given_decorator get_parser parserlike converters' target_fixture target_fixtures'
       params_fixtures_mapping' param_defaults' liberal' =
     decorator_builder get_parser (Some CONTEXT) parserlike converters' target_fixture
       target_fixtures' params_fixtures_mapping' param_defaults' liberal'"

definition when_decorator ::
  "('p \<Rightarrow> 'v StepParser) \<Rightarrow> 'p \<Rightarrow> (string \<rightharpoonup> ('v \<Rightarrow> 'v)) option
   \<Rightarrow> string option \<Rightarrow> string list option \<Rightarrow> ParamsFixturesMapping
   \<Rightarrow> (string \<rightharpoonup> 'v) option \<Rightarrow> bool option
   \<Rightarrow> 'v warning list \<times> (string \<Rightarrow> 'v Env \<Rightarrow> string \<times> 'v Env)" where
  "when_decorator get_parser parserlike converters' target_fixture target_fixtures'
       params_fixtures_mapping' param_defaults' liberal' =
     decorator_builder get_parser (Some ACTION) parserlike converters' target_fixture
       target_fixtures' params_fixtures_mapping' param_defaults' liberal'"

definition then_decorator ::
  "('p \<Rightarrow> 'v StepParser) \<Rightarrow> 'p \<Rightarrow> (string \<rightharpoonup> ('v \<Rightarrow> 'v)) option
   \<Rightarrow> string option \<Rightarrow> string list option \<Rightarrow> ParamsFixturesMapping
   \<Rightarrow> (string \<rightharpoonup> 'v) option \<Rightarrow> bool option
   \<Rightarrow> 'v warning list \<times> (string \<Rightarrow> 'v Env \<Rightarrow> string \<times> 'v Env)" where
  "then_decorator get_parser parserlike converters' target_fixture target_fixtures'
       params_fixtures_mapping' param_defaults' liberal' =
     decorator_builder get_parser (Some OUTCOME) parserlike converters' target_fixture
       target_fixtures' params_fixtures_mapping' param_defaults' liberal'"

definition step_decorator ::
  "('p \<Rightarrow> 'v StepParser) \<Rightarrow> 'p \<Rightarrow> (string \<rightharpoonup> ('v \<Rightarrow> 'v)) option
   \<Rightarrow> string option \<Rightarrow> string list option \<Rightarrow> ParamsFixturesMapping
   \<Rightarrow> (string \<rightharpoonup> 'v) option \<Rightarrow> bool option
   \<Rightarrow> 'v warning list \<times> (string \<Rightarrow> 'v Env \<Rightarrow> string \<times> 'v Env)" where
  "step_decorator get_parser parserlike converters' target_fixture target_fixtures'
       params_fixtures_mapping' param_defaults' liberal' =
     decorator_builder get_parser
       (if liberal' = Some True then Some UNSPECIFIED else Some UNKNOWN)
       parserlike converters' target_fixture
       target_fixtures' params_fixtures_mapping' param_defaults' liberal'"

text \<open>
  The definitions stored in the registry of a module namespace, and the state of a
  module before any decorator has run in it, for given table slots.
\<close>

definition registered :: "'v caller_locals \<Rightarrow> 'v Definition list" where
  "registered caller_locals =
     (case caller_locals ''step_registry'' of None \<Rightarrow> [] | Some r \<Rightarrow> registry r)"

definition empty_env :: "('v Definition list \<Rightarrow> 'v Definition \<Rightarrow> nat) \<Rightarrow> 'v Env" where
  "empty_env slot =
     \<lparr>next_id = 0, table_slot = slot, caller_module_locals = Map.empty,
      pytest_bdd_step_definitions = (\<lambda>f. [])\<rparr>"

section \<open>Example objects\<close>

text \<open>Values are integers in the examples; the parser of the literal pattern \<^verbatim>\<open>foo\<close>.\<close>

definition foo_parser :: "int StepParser" where
  "foo_parser = \<lparr>is_matching = (\<lambda>t. t = ''foo''), parse_arguments = (\<lambda>t. None)\<rparr>"

definition default_config :: Config where
  "default_config = \<lparr>option_liberal_steps = None, getini_liberal_steps = False\<rparr>"

definition given_foo :: Step where
  "given_foo = \<lparr>type = CONTEXT, text = ''foo'', name = ''foo''\<rparr>"

definition and_foo :: Step where
  "and_foo = \<lparr>type = CONJUNCTION, text = ''foo'', name = ''foo''\<rparr>"

definition then_foo :: Step where
  "then_foo = \<lparr>type = OUTCOME, text = ''foo'', name = ''foo''\<rparr>"

definition given_bar :: Step where
  "given_bar = \<lparr>type = CONTEXT, text = ''bar'', name = ''bar''\<rparr>"

text \<open>A matcher as \<^verbatim>\<open>Matcher(config)\<close> builds it, with no context yet.\<close>

definition fresh_matcher :: "int Matcher" where
  "fresh_matcher =
     \<lparr>config = default_config, feature = ''feature'', pickle = ''scenario'',
      step = given_foo, previous_step = None, step_registry = None,
      step_type_context = None\<rparr>"

definition context_matcher :: "int Matcher" where
  "context_matcher = fresh_matcher\<lparr>step_type_context := Some CONTEXT\<rparr>"

definition and_bar :: Step where
  "and_bar = \<lparr>type = CONJUNCTION, text = ''bar'', name = ''bar''\<rparr>"

definition action_liberal_foo :: "int Definition" where
  "action_liberal_foo =
     \<lparr>obj_id = 1, func = ''handler'', type' = Some ACTION, parser = foo_parser,
      converters = Map.empty, params_fixtures_mapping = InjectFlag True,
      param_defaults = Map.empty, target_fixtures = [], liberal = Some True\<rparr>"

definition context_foo :: "int Definition" where
  "context_foo = action_liberal_foo\<lparr>obj_id := 2, type' := Some CONTEXT, liberal := None\<rparr>"

definition unspecified_foo :: "int Definition" where
  "unspecified_foo = action_liberal_foo\<lparr>obj_id := 3, type' := Some UNSPECIFIED, liberal := None\<rparr>"

definition get_parser_literal :: "string \<Rightarrow> int StepParser" where
  "get_parser_literal pattern = \<lparr>is_matching = (\<lambda>t. t = pattern), parse_arguments = (\<lambda>t. None)\<rparr>"

text \<open>
  A parser that reads the arguments \<^verbatim>\<open>n = 3\<close> and \<^verbatim>\<open>k = 5\<close> from every text, and a
  definition with a converter for \<^verbatim>\<open>n\<close> and defaults for \<^verbatim>\<open>n\<close> and \<^verbatim>\<open>m\<close>.
\<close>

definition count_parser :: "int StepParser" where
  "count_parser =
     \<lparr>is_matching = (\<lambda>t. True),
      parse_arguments = (\<lambda>t. Some [''n'' \<mapsto> 3, ''k'' \<mapsto> 5])\<rparr>"

definition count_definition :: "int Definition" where
  "count_definition =
     \<lparr>obj_id = 7, func = ''handler'', type' = Some CONTEXT, parser = count_parser,
      converters = [''n'' \<mapsto> (\<lambda>v. 2 * v)], params_fixtures_mapping = InjectFlag True,
      param_defaults = [''n'' \<mapsto> 0, ''m'' \<mapsto> 7], target_fixtures = [], liberal = None\<rparr>"

text \<open>
  Two tables: one iterates a set of definitions by ascending identity, the other one by
  descending identity.
\<close>

definition slot_ascending :: "int Definition list \<Rightarrow> int Definition \<Rightarrow> nat" where
  "slot_ascending members d = obj_id d"

definition slot_descending :: "int Definition list \<Rightarrow> int Definition \<Rightarrow> nat" where
  "slot_descending members d = 100 - obj_id d"

text \<open>
  The module after \<^verbatim>\<open>step("foo", liberal=...)\<close> has decorated the function
  \<^verbatim>\<open>handler\<close> in a module without a registry.
\<close>

definition step_foo_env :: "bool option \<Rightarrow> int Env" where
  "step_foo_env liberal' =
     snd (snd (step_decorator get_parser_literal ''foo'' None None None (InjectFlag True) None
                 liberal')
            ''handler'' (empty_env slot_ascending))"

text \<open>
  The module after one decorator made by \<^verbatim>\<open>given("foo")\<close> has been applied twice to the
  function \<^verbatim>\<open>handler\<close>.
\<close>

definition given_foo_twice_env ::
  "(int Definition list \<Rightarrow> int Definition \<Rightarrow> nat) \<Rightarrow> int Env" where
  "given_foo_twice_env slot =
     (let dec = snd (given_decorator get_parser_literal ''foo'' None None None
                       (InjectFlag True) None None)
      in snd (dec ''handler'' (snd (dec ''handler'' (empty_env slot)))))"

definition unspecified_step_foo :: "int Definition" where
  "unspecified_step_foo =
     \<lparr>obj_id = 0, func = ''handler'', type' = Some UNSPECIFIED,
      parser = get_parser_literal ''foo'', converters = Map.empty,
      params_fixtures_mapping = InjectFlag True, param_defaults = Map.empty,
      target_fixtures = [], liberal = Some True\<rparr>"

definition given_foo_definition :: "int Definition" where
  "given_foo_definition =
     \<lparr>obj_id = 0, func = ''handler'', type' = Some CONTEXT,
      parser = get_parser_literal ''foo'', converters = Map.empty,
      params_fixtures_mapping = InjectFlag True, param_defaults = Map.empty,
      target_fixtures = [], liberal = None\<rparr>"

section \<open>Auxiliary facts about the matcher\<close>

lemma registry_loop_filter:
  "registry_loop m defs (found, out) = (found \<or> filter m defs \<noteq> [], out @ filter m defs)"
  by (induction defs arbitrary: found out) auto

lemma matchers_loop_three:
  "matchers_loop [m1, m2, m3] defs (False, []) =
     (if filter m1 defs \<noteq> [] then (True, filter m1 defs)
      else if filter m2 defs \<noteq> [] then (True, filter m2 defs)
      else if filter m3 defs \<noteq> [] then (True, filter m3 defs)
      else (False, []))"
  by (simp add: registry_loop_filter Let_def)

lemma find_three:
  "find_step_definition_matches (Some (Registry defs par)) [m1, m2, m3] =
     (if filter m1 defs \<noteq> [] then filter m1 defs
      else if filter m2 defs \<noteq> [] then filter m2 defs
      else if filter m3 defs \<noteq> [] then filter m3 defs
      else find_step_definition_matches par [m1, m2, m3])"
  by (simp add: matchers_loop_three Let_def del: matchers_loop.simps)

lemma find_three_empty:
  "find_step_definition_matches reg [m1, m2, m3] = [] \<longleftrightarrow>
     (\<forall>d \<in> set (chain_definitions reg). \<not> m1 d \<and> \<not> m2 d \<and> \<not> m3 d)"
proof (induction reg rule: chain_definitions.induct)
  case 1
  then show ?case by simp
next
  case (2 defs par)
  show ?case
    unfolding find_three using 2 by (auto simp: filter_empty_conv)
qed

lemma step_definitions_Some:
  "step_definitions self (Some (Registry defs par)) =
     (if filter (strict_matcher self) defs \<noteq> [] then filter (strict_matcher self) defs
      else if filter (unspecified_matcher self) defs \<noteq> [] then filter (unspecified_matcher self) defs
      else if filter (liberal_matcher self) defs \<noteq> [] then filter (liberal_matcher self) defs
      else step_definitions self par)"
  unfolding step_definitions_def by (rule find_three)

lemma step_definitions_None: "step_definitions self None = []"
  by (simp add: step_definitions_def)

lemma matcher_after_call:
  "matcher_after (call self f p s ps reg) =
     self\<lparr>feature := f, pickle := p, step := s, previous_step := ps, step_registry := reg,
          step_type_context := propagate_context (step_type_context self) (type s)\<rparr>"
  by (simp add: matcher_after_def call_def Let_def split: list.splits)

lemma matchers_ignore [simp]:
  "strict_matcher (m\<lparr>feature := f\<rparr>) = strict_matcher m"
  "strict_matcher (m\<lparr>pickle := p\<rparr>) = strict_matcher m"
  "strict_matcher (m\<lparr>previous_step := ps\<rparr>) = strict_matcher m"
  "strict_matcher (m\<lparr>step_registry := reg\<rparr>) = strict_matcher m"
  "unspecified_matcher (m\<lparr>feature := f\<rparr>) = unspecified_matcher m"
  "unspecified_matcher (m\<lparr>pickle := p\<rparr>) = unspecified_matcher m"
  "unspecified_matcher (m\<lparr>previous_step := ps\<rparr>) = unspecified_matcher m"
  "unspecified_matcher (m\<lparr>step_registry := reg\<rparr>) = unspecified_matcher m"
  "liberal_matcher (m\<lparr>feature := f\<rparr>) = liberal_matcher m"
  "liberal_matcher (m\<lparr>pickle := p\<rparr>) = liberal_matcher m"
  "liberal_matcher (m\<lparr>previous_step := ps\<rparr>) = liberal_matcher m"
  "liberal_matcher (m\<lparr>step_registry := reg\<rparr>) = liberal_matcher m"
  by (simp_all add: fun_eq_iff strict_matcher_def unspecified_matcher_def liberal_matcher_def
        is_step_definition_liberal_def cong: option.case_cong)

lemma call_outcome:
  "outcome (call self f p s ps reg) =
     (case step_definitions (matcher_after (call self f p s ps reg)) reg of
        [] \<Rightarrow> Inl MatchNotFoundError | d # ds \<Rightarrow> Inr d)"
  by (simp add: matcher_after_call)
     (simp add: outcome_def call_def Let_def step_definitions_def split: list.splits)

lemma call_warnings:
  "warnings_of (call self f p s ps reg) =
     (let found = step_definitions (matcher_after (call self f p s ps reg)) reg
      in if length found > 1 then [Alternative_step_definitions_are_found found] else [])"
  by (simp add: matcher_after_call)
     (simp add: warnings_of_def call_def Let_def step_definitions_def split: list.splits)

lemma propagate_context_not_conjunction: "propagate_context ctx ty \<noteq> Some CONJUNCTION"
  by (simp add: propagate_context_def Let_def)

lemma propagate_context_set: "propagate_context ctx ty \<noteq> None"
  by (auto simp add: propagate_context_def Let_def)

lemma propagate_context_idem:
  "propagate_context (propagate_context ctx ty) ty = propagate_context ctx ty"
  by (cases ty; cases ctx) (auto simp: propagate_context_def Let_def)

lemma call_again:
  "matcher_after (call (matcher_after (call self f p s ps reg)) f p s ps reg)
     = matcher_after (call self f p s ps reg)"
  by (simp add: matcher_after_call propagate_context_idem)

lemmas example_defs =
  context_matcher_def fresh_matcher_def action_liberal_foo_def context_foo_def
  unspecified_foo_def foo_parser_def given_foo_def and_foo_def then_foo_def given_bar_def
  default_config_def and_bar_def

lemmas matcher_defs =
  strict_matcher_def unspecified_matcher_def liberal_matcher_def is_step_definition_liberal_def

section \<open>Properties of the matcher\<close>

text \<open>
  Claim C1. Resolution starts at the nearest registry and tries the strict, the
  unspecified and the liberal matcher in this order. The first tier with a match at a
  registry gives the candidates: all matches of that tier at that registry, whatever the
  later tiers and the parent hold, so every candidate is held by that registry and the
  parent has no influence. Only a registry where all three tiers are empty hands over to
  its parent, where the same evaluation starts again; a chain that ends yields nothing.
  The call returns the first candidate.
\<close>

theorem C1_nearest_registry_first:
  "step_definitions self None = [] \<and>
   step_definitions self (Some (Registry defs par)) =
     (if filter (strict_matcher self) defs \<noteq> [] then filter (strict_matcher self) defs
      else if filter (unspecified_matcher self) defs \<noteq> []
           then filter (unspecified_matcher self) defs
      else if filter (liberal_matcher self) defs \<noteq> [] then filter (liberal_matcher self) defs
      else step_definitions self par) \<and>
   ((\<exists>d \<in> set defs. strict_matcher self d \<or> unspecified_matcher self d \<or> liberal_matcher self d)
      \<longrightarrow> set (step_definitions self (Some (Registry defs par))) \<subseteq> set defs
          \<and> step_definitions self (Some (Registry defs par'))
              = step_definitions self (Some (Registry defs par))) \<and>
   outcome (call self0 f p s ps reg) =
     (case step_definitions (matcher_after (call self0 f p s ps reg)) reg of
        [] \<Rightarrow> Inl MatchNotFoundError
      | d # ds \<Rightarrow> Inr d)"
proof -
  have none: "step_definitions self None = []"
    by (rule step_definitions_None)
  have some: "step_definitions self (Some (Registry defs q)) =
     (if filter (strict_matcher self) defs \<noteq> [] then filter (strict_matcher self) defs
      else if filter (unspecified_matcher self) defs \<noteq> []
           then filter (unspecified_matcher self) defs
      else if filter (liberal_matcher self) defs \<noteq> [] then filter (liberal_matcher self) defs
      else step_definitions self q)" for q
    by (rule step_definitions_Some)
  have stop: "set (step_definitions self (Some (Registry defs par))) \<subseteq> set defs
          \<and> step_definitions self (Some (Registry defs par'))
              = step_definitions self (Some (Registry defs par))"
    if "\<exists>d \<in> set defs. strict_matcher self d \<or> unspecified_matcher self d \<or> liberal_matcher self d"
  proof -
    from that have "filter (strict_matcher self) defs \<noteq> []
        \<or> filter (unspecified_matcher self) defs \<noteq> []
        \<or> filter (liberal_matcher self) defs \<noteq> []"
      by (auto simp: filter_empty_conv)
    then show ?thesis
      unfolding some by auto
  qed
  from none some [of par] stop call_outcome [of self0 f p s ps reg] show ?thesis
    by blast
qed

theorem C1_nearest_registry_first_witness:
  "liberal_matcher context_matcher action_liberal_foo \<and>
   strict_matcher context_matcher context_foo \<and>
   step_definitions context_matcher
     (Some (Registry [action_liberal_foo] (Some (Registry [context_foo] None))))
     = [action_liberal_foo] \<and>
   step_definitions context_matcher (Some (Registry [action_liberal_foo] None))
     = [action_liberal_foo] \<and>
   outcome (call fresh_matcher ''feature'' ''scenario'' given_foo None
              (Some (Registry [action_liberal_foo] (Some (Registry [context_foo] None)))))
     = Inr action_liberal_foo"
  using C1_nearest_registry_first [of context_matcher "[action_liberal_foo]"
          "Some (Registry [context_foo] None)" None fresh_matcher "''feature''" "''scenario''"
          given_foo None "Some (Registry [action_liberal_foo] (Some (Registry [context_foo] None)))"]
  by (simp add: example_defs matcher_defs matcher_after_call propagate_context_def
        step_definitions_Some)

text \<open>
  Claim C2. After a call the context is the old one if the step is a conjunction or of
  unknown type and a context was set, else the type of the step; a resulting
  \<open>CONJUNCTION\<close> becomes \<open>UNKNOWN\<close>. For the steps Given A, And B, Then C, And D
  handled by one matcher, B is resolved with the context \<open>CONTEXT\<close> and D with the
  context \<open>OUTCOME\<close>.
\<close>

theorem C2_context_propagation:
  "step_type_context (matcher_after (call self f p s ps reg)) =
     (let kept = (if type s \<in> {CONJUNCTION, UNKNOWN} \<and> step_type_context self \<noteq> None
                  then step_type_context self else Some (type s))
      in if kept = Some CONJUNCTION then Some UNKNOWN else kept) \<and>
   (type a = CONTEXT \<and> type b = CONJUNCTION \<and> type c = OUTCOME \<and> type d = CONJUNCTION \<longrightarrow>
      (let m1 = matcher_after (call self f p a None reg1);
           m2 = matcher_after (call m1 f p b (Some a) reg2);
           m3 = matcher_after (call m2 f p c (Some b) reg3);
           m4 = matcher_after (call m3 f p d (Some c) reg4)
       in step_type_context m2 = Some CONTEXT \<and> step_type_context m4 = Some OUTCOME \<and>
          outcome (call m1 f p b (Some a) reg2) =
            (case step_definitions m2 reg2 of [] \<Rightarrow> Inl MatchNotFoundError | x # xs \<Rightarrow> Inr x) \<and>
          outcome (call m3 f p d (Some c) reg4) =
            (case step_definitions m4 reg4 of [] \<Rightarrow> Inl MatchNotFoundError | x # xs \<Rightarrow> Inr x)))"
proof (intro conjI impI)
  show "step_type_context (matcher_after (call self f p s ps reg)) =
     (let kept = (if type s \<in> {CONJUNCTION, UNKNOWN} \<and> step_type_context self \<noteq> None
                  then step_type_context self else Some (type s))
      in if kept = Some CONJUNCTION then Some UNKNOWN else kept)"
    by (simp add: matcher_after_call propagate_context_def)
next
  assume ty: "type a = CONTEXT \<and> type b = CONJUNCTION \<and> type c = OUTCOME \<and> type d = CONJUNCTION"
  define m1 where "m1 = matcher_after (call self f p a None reg1)"
  define m2 where "m2 = matcher_after (call m1 f p b (Some a) reg2)"
  define m3 where "m3 = matcher_after (call m2 f p c (Some b) reg3)"
  define m4 where "m4 = matcher_after (call m3 f p d (Some c) reg4)"
  have c1: "step_type_context m1 = Some CONTEXT"
    using ty by (simp add: m1_def matcher_after_call propagate_context_def)
  have c2: "step_type_context m2 = Some CONTEXT"
    using ty c1 by (simp add: m2_def matcher_after_call propagate_context_def)
  have c3: "step_type_context m3 = Some OUTCOME"
    using ty by (simp add: m3_def matcher_after_call propagate_context_def)
  have c4: "step_type_context m4 = Some OUTCOME"
    using ty c3 by (simp add: m4_def matcher_after_call propagate_context_def)
  have o2: "outcome (call m1 f p b (Some a) reg2) =
            (case step_definitions m2 reg2 of [] \<Rightarrow> Inl MatchNotFoundError | x # xs \<Rightarrow> Inr x)"
    unfolding m2_def by (rule call_outcome)
  have o4: "outcome (call m3 f p d (Some c) reg4) =
            (case step_definitions m4 reg4 of [] \<Rightarrow> Inl MatchNotFoundError | x # xs \<Rightarrow> Inr x)"
    unfolding m4_def by (rule call_outcome)
  from c2 c4 o2 o4 show "(let m1 = matcher_after (call self f p a None reg1);
           m2 = matcher_after (call m1 f p b (Some a) reg2);
           m3 = matcher_after (call m2 f p c (Some b) reg3);
           m4 = matcher_after (call m3 f p d (Some c) reg4)
       in step_type_context m2 = Some CONTEXT \<and> step_type_context m4 = Some OUTCOME \<and>
          outcome (call m1 f p b (Some a) reg2) =
            (case step_definitions m2 reg2 of [] \<Rightarrow> Inl MatchNotFoundError | x # xs \<Rightarrow> Inr x) \<and>
          outcome (call m3 f p d (Some c) reg4) =
            (case step_definitions m4 reg4 of [] \<Rightarrow> Inl MatchNotFoundError | x # xs \<Rightarrow> Inr x))"
    unfolding Let_def m1_def m2_def m3_def m4_def by blast
qed

theorem C2_context_propagation_witness:
  "type given_foo = CONTEXT \<and> type and_foo = CONJUNCTION \<and> type then_foo = OUTCOME \<and>
   step_type_context
     (matcher_after (call (matcher_after (call fresh_matcher ''feature'' ''scenario'' given_foo
        None None)) ''feature'' ''scenario'' and_foo (Some given_foo) None)) = Some CONTEXT \<and>
   step_type_context
     (matcher_after (call (matcher_after (call (matcher_after (call (matcher_after
        (call fresh_matcher ''feature'' ''scenario'' given_foo None None))
        ''feature'' ''scenario'' and_foo (Some given_foo) None))
        ''feature'' ''scenario'' then_foo (Some and_foo) None))
        ''feature'' ''scenario'' and_foo (Some then_foo) None)) = Some OUTCOME"
  using C2_context_propagation [of fresh_matcher "''feature''" "''scenario''" given_foo None None
          given_foo and_foo then_foo and_foo None None None None]
  by (simp add: given_foo_def and_foo_def then_foo_def Let_def)

text \<open>
  Claim C5. The liberal matcher accepts a definition exactly if the unspecified matcher
  rejects it, its effective liberal flag holds (its own flag if set, else the command-line
  toggle if given, else the ini option), its type differs from the context and its
  pattern matches the text. A registry with the single definition of type \<open>ACTION\<close>,
  liberal and matching the text of a step of type \<open>CONTEXT\<close>: the first two tiers are
  empty, the third one selects the definition, and the call returns it without warning.
\<close>

theorem C5_liberal_tier:
  "(liberal_matcher self sd \<longleftrightarrow>
      \<not> unspecified_matcher self sd \<and>
      (case liberal sd of
         Some b \<Rightarrow> b
       | None \<Rightarrow> (case option_liberal_steps (config self) of
                    Some b \<Rightarrow> b
                  | None \<Rightarrow> getini_liberal_steps (config self))) \<and>
      type' sd \<noteq> step_type_context self \<and>
      is_matching (parser sd) (text (step self))) \<and>
   (type' d = Some ACTION \<and> liberal d = Some True \<and> is_matching (parser d) (text s) \<and>
    type s = CONTEXT \<longrightarrow>
      (let r = call self0 f p s ps (Some (Registry [d] None)); m = matcher_after r
       in step_type_context m = Some CONTEXT \<and>
          filter (strict_matcher m) [d] = [] \<and>
          filter (unspecified_matcher m) [d] = [] \<and>
          filter (liberal_matcher m) [d] = [d] \<and>
          outcome r = Inr d \<and> warnings_of r = []))"
proof (intro conjI impI)
  show "liberal_matcher self sd \<longleftrightarrow>
      \<not> unspecified_matcher self sd \<and>
      (case liberal sd of
         Some b \<Rightarrow> b
       | None \<Rightarrow> (case option_liberal_steps (config self) of
                    Some b \<Rightarrow> b
                  | None \<Rightarrow> getini_liberal_steps (config self))) \<and>
      type' sd \<noteq> step_type_context self \<and>
      is_matching (parser sd) (text (step self))"
    by (simp add: liberal_matcher_def is_step_definition_liberal_def split: option.splits)
next
  assume h: "type' d = Some ACTION \<and> liberal d = Some True \<and> is_matching (parser d) (text s) \<and>
    type s = CONTEXT"
  define r where "r = call self0 f p s ps (Some (Registry [d] None))"
  define m where "m = matcher_after r"
  have m: "step_type_context m = Some CONTEXT" "text (step m) = text s"
    using h by (simp_all add: m_def r_def matcher_after_call propagate_context_def)
  have t1: "\<not> strict_matcher m d"
    using h m by (simp add: strict_matcher_def)
  have t2: "\<not> unspecified_matcher m d"
    using h m by (simp add: unspecified_matcher_def)
  have t3: "liberal_matcher m d"
    using h m t2 by (simp add: liberal_matcher_def is_step_definition_liberal_def)
  have found: "step_definitions m (Some (Registry [d] None)) = [d]"
    using t1 t2 t3 by (simp add: step_definitions_Some)
  have out: "outcome r = Inr d"
    using found call_outcome [of self0 f p s ps "Some (Registry [d] None)"]
    by (simp add: m_def r_def)
  have warn: "warnings_of r = []"
    using found call_warnings [of self0 f p s ps "Some (Registry [d] None)"]
    by (simp add: m_def r_def)
  from m t1 t2 t3 out warn
  show "(let r = call self0 f p s ps (Some (Registry [d] None)); m = matcher_after r
       in step_type_context m = Some CONTEXT \<and>
          filter (strict_matcher m) [d] = [] \<and>
          filter (unspecified_matcher m) [d] = [] \<and>
          filter (liberal_matcher m) [d] = [d] \<and>
          outcome r = Inr d \<and> warnings_of r = [])"
    unfolding Let_def m_def r_def by simp
qed

theorem C5_liberal_tier_witness:
  "type' action_liberal_foo = Some ACTION \<and> liberal action_liberal_foo = Some True \<and>
   is_matching (parser action_liberal_foo) (text given_foo) \<and> type given_foo = CONTEXT \<and>
   liberal_matcher context_matcher action_liberal_foo \<and>
   outcome (call fresh_matcher ''feature'' ''scenario'' given_foo None
              (Some (Registry [action_liberal_foo] None))) = Inr action_liberal_foo \<and>
   warnings_of (call fresh_matcher ''feature'' ''scenario'' given_foo None
              (Some (Registry [action_liberal_foo] None))) = []"
  using C5_liberal_tier [of context_matcher action_liberal_foo action_liberal_foo given_foo
          fresh_matcher "''feature''" "''scenario''" None]
  by (simp add: example_defs unspecified_matcher_def Let_def)

text \<open>
  Claim C6. No candidate: the call raises \<open>MatchNotFoundError\<close>, which happens exactly if
  no definition anywhere in the chain passes any of the three matchers. One candidate: it
  is returned and nothing is warned. Two or more: the first one is returned and one
  warning lists all of them.
\<close>

theorem C6_resolution_outcome:
  "(let r = call self f p s ps reg; found = step_definitions (matcher_after r) reg
    in (found = [] \<longrightarrow> outcome r = Inl MatchNotFoundError \<and> warnings_of r = []) \<and>
       (found = [d] \<longrightarrow> outcome r = Inr d \<and> warnings_of r = []) \<and>
       (found = d # d' # ds \<longrightarrow>
          outcome r = Inr d \<and>
          warnings_of r = [Alternative_step_definitions_are_found (d # d' # ds)]) \<and>
       (outcome r = Inl MatchNotFoundError \<longleftrightarrow>
          (\<forall>x \<in> set (chain_definitions reg).
             \<not> strict_matcher (matcher_after r) x \<and>
             \<not> unspecified_matcher (matcher_after r) x \<and>
             \<not> liberal_matcher (matcher_after r) x)))"
proof -
  define r where "r = call self f p s ps reg"
  define found where "found = step_definitions (matcher_after r) reg"
  have out: "outcome r = (case found of [] \<Rightarrow> Inl MatchNotFoundError | x # xs \<Rightarrow> Inr x)"
    unfolding r_def found_def by (rule call_outcome)
  have warn: "warnings_of r =
      (if length found > 1 then [Alternative_step_definitions_are_found found] else [])"
    using call_warnings [of self f p s ps reg] by (simp add: r_def found_def Let_def)
  have a: "found = [] \<longrightarrow> outcome r = Inl MatchNotFoundError \<and> warnings_of r = []"
    by (simp add: out warn)
  have b: "found = [d] \<longrightarrow> outcome r = Inr d \<and> warnings_of r = []"
    by (simp add: out warn)
  have c: "found = d # d' # ds \<longrightarrow>
          outcome r = Inr d \<and>
          warnings_of r = [Alternative_step_definitions_are_found (d # d' # ds)]"
    by (simp add: out warn)
  have "outcome r = Inl MatchNotFoundError \<longleftrightarrow> found = []"
    by (simp add: out split: list.splits)
  then have e: "outcome r = Inl MatchNotFoundError \<longleftrightarrow>
          (\<forall>x \<in> set (chain_definitions reg).
             \<not> strict_matcher (matcher_after r) x \<and>
             \<not> unspecified_matcher (matcher_after r) x \<and>
             \<not> liberal_matcher (matcher_after r) x)"
    by (simp add: found_def step_definitions_def find_three_empty)
  from a b c e show ?thesis
    unfolding Let_def r_def found_def by blast
qed

theorem C6_resolution_outcome_witness:
  "outcome (call fresh_matcher ''feature'' ''scenario'' given_bar None
              (Some (Registry [action_liberal_foo] (Some (Registry [context_foo] None)))))
     = Inl MatchNotFoundError \<and>
   outcome (call fresh_matcher ''feature'' ''scenario'' given_foo None
              (Some (Registry [action_liberal_foo] (Some (Registry [context_foo] None)))))
     = Inr action_liberal_foo \<and>
   warnings_of (call fresh_matcher ''feature'' ''scenario'' given_foo None
              (Some (Registry [action_liberal_foo] (Some (Registry [context_foo] None)))))
     = [] \<and>
   outcome (call fresh_matcher ''feature'' ''scenario'' given_foo None
              (Some (Registry [context_foo, context_foo\<lparr>obj_id := 4\<rparr>] None)))
     = Inr context_foo \<and>
   warnings_of (call fresh_matcher ''feature'' ''scenario'' given_foo None
              (Some (Registry [context_foo, context_foo\<lparr>obj_id := 4\<rparr>] None)))
     = [Alternative_step_definitions_are_found [context_foo, context_foo\<lparr>obj_id := 4\<rparr>]]"
  using C6_resolution_outcome [of fresh_matcher "''feature''" "''scenario''" given_bar None
          "Some (Registry [action_liberal_foo] (Some (Registry [context_foo] None)))"
          action_liberal_foo context_foo "[]"]
        C6_resolution_outcome [of fresh_matcher "''feature''" "''scenario''" given_foo None
          "Some (Registry [action_liberal_foo] (Some (Registry [context_foo] None)))"
          action_liberal_foo context_foo "[]"]
        C6_resolution_outcome [of fresh_matcher "''feature''" "''scenario''" given_foo None
          "Some (Registry [context_foo, context_foo\<lparr>obj_id := 4\<rparr>] None)"
          context_foo "context_foo\<lparr>obj_id := 4\<rparr>" "[]"]
  by (simp add: example_defs matcher_defs matcher_after_call propagate_context_def
        step_definitions_Some step_definitions_None Let_def)

text \<open>
  Claim C9. After every call, failed or not, the context of the matcher is neither
  \<open>CONJUNCTION\<close> nor unset; so a context that was set is never unset by a later call.
\<close>

theorem C9_context_never_conjunction_never_unset:
  "step_type_context (matcher_after (call self f p s ps reg)) \<noteq> Some CONJUNCTION \<and>
   step_type_context (matcher_after (call self f p s ps reg)) \<noteq> None"
  by (simp add: matcher_after_call propagate_context_not_conjunction propagate_context_set)

theorem C9_context_never_conjunction_never_unset_witness:
  "step_type_context (matcher_after (call fresh_matcher ''feature'' ''scenario'' and_foo None None))
     = Some UNKNOWN"
  using C9_context_never_conjunction_never_unset
          [of fresh_matcher "''feature''" "''scenario''" and_foo None None]
  by (simp add: matcher_after_call propagate_context_def and_foo_def fresh_matcher_def)

text \<open>
  Claim C10. A call that fails with \<open>MatchNotFoundError\<close> has read the registries and
  changed none: the matcher holds the chain that was passed in, with the same
  definitions, every definition of the chain was rejected by all three matchers, and the
  same call on the chain the matcher now holds fails again. The context of the matcher
  is by then already the new one: the old context if the step is a conjunction or of
  unknown type and a context was set, else the type of the step, with \<open>CONJUNCTION\<close>
  turned into \<open>UNKNOWN\<close>; the definitions were rejected under this new context, and a
  matcher without a context has one after the failed call.
\<close>

theorem C10_failure_keeps_registries_updates_context:
  "outcome (call self f p s ps reg) = Inl MatchNotFoundError \<Longrightarrow>
     (let after = matcher_after (call self f p s ps reg)
      in step_type_context after =
           (let kept = (if type s \<in> {CONJUNCTION, UNKNOWN} \<and> step_type_context self \<noteq> None
                        then step_type_context self else Some (type s))
            in if kept = Some CONJUNCTION then Some UNKNOWN else kept) \<and>
         (step_type_context self = None \<longrightarrow> step_type_context after \<noteq> step_type_context self) \<and>
         step_registry after = reg \<and>
         chain_definitions (step_registry after) = chain_definitions reg \<and>
         (\<forall>x \<in> set (chain_definitions reg).
            \<not> strict_matcher after x \<and> \<not> unspecified_matcher after x \<and> \<not> liberal_matcher after x) \<and>
         outcome (call after f p s ps (step_registry after)) = Inl MatchNotFoundError \<and>
         warnings_of (call self f p s ps reg) = [])"
proof -
  assume fail: "outcome (call self f p s ps reg) = Inl MatchNotFoundError"
  define after where "after = matcher_after (call self f p s ps reg)"
  have none: "step_definitions after reg = []"
    using fail call_outcome [of self f p s ps reg] by (simp add: after_def split: list.splits)
  have ctx: "step_type_context after =
           (let kept = (if type s \<in> {CONJUNCTION, UNKNOWN} \<and> step_type_context self \<noteq> None
                        then step_type_context self else Some (type s))
            in if kept = Some CONJUNCTION then Some UNKNOWN else kept)"
    by (simp add: after_def matcher_after_call propagate_context_def)
  have changed: "step_type_context self = None \<longrightarrow> step_type_context after \<noteq> step_type_context self"
    by (simp add: after_def matcher_after_call propagate_context_set)
  have reg: "step_registry after = reg"
    by (simp add: after_def matcher_after_call)
  have tried: "\<forall>x \<in> set (chain_definitions reg).
            \<not> strict_matcher after x \<and> \<not> unspecified_matcher after x \<and> \<not> liberal_matcher after x"
    using none by (simp add: step_definitions_def find_three_empty)
  have "step_definitions (matcher_after (call after f p s ps reg)) reg = []"
    using none by (simp add: after_def call_again)
  then have again: "outcome (call after f p s ps (step_registry after)) = Inl MatchNotFoundError"
    by (simp add: reg call_outcome)
  have warn: "warnings_of (call self f p s ps reg) = []"
    using none call_warnings [of self f p s ps reg] by (simp add: after_def)
  from ctx changed reg tried again warn show ?thesis
    unfolding Let_def after_def by simp
qed

theorem C10_failure_keeps_registries_updates_context_witness:
  "outcome (call fresh_matcher ''feature'' ''scenario'' given_bar None
              (Some (Registry [action_liberal_foo] None))) = Inl MatchNotFoundError \<and>
   step_type_context fresh_matcher = None \<and>
   step_type_context (matcher_after (call fresh_matcher ''feature'' ''scenario'' given_bar None
              (Some (Registry [action_liberal_foo] None)))) = Some CONTEXT \<and>
   step_registry (matcher_after (call fresh_matcher ''feature'' ''scenario'' given_bar None
              (Some (Registry [action_liberal_foo] None))))
     = Some (Registry [action_liberal_foo] None) \<and>
   outcome (call context_matcher ''feature'' ''scenario'' and_bar (Some given_foo)
              (Some (Registry [action_liberal_foo] None))) = Inl MatchNotFoundError \<and>
   step_type_context (matcher_after (call context_matcher ''feature'' ''scenario'' and_bar
              (Some given_foo) (Some (Registry [action_liberal_foo] None)))) = Some CONTEXT"
proof -
  have fail1: "outcome (call fresh_matcher ''feature'' ''scenario'' given_bar None
              (Some (Registry [action_liberal_foo] None))) = Inl MatchNotFoundError"
    by (simp add: call_outcome)
       (simp add: example_defs matcher_defs matcher_after_call propagate_context_def
          step_definitions_Some step_definitions_None)
  have fail2: "outcome (call context_matcher ''feature'' ''scenario'' and_bar (Some given_foo)
              (Some (Registry [action_liberal_foo] None))) = Inl MatchNotFoundError"
    by (simp add: call_outcome)
       (simp add: example_defs matcher_defs matcher_after_call propagate_context_def
          step_definitions_Some step_definitions_None)
  from C10_failure_keeps_registries_updates_context [OF fail1]
       C10_failure_keeps_registries_updates_context [OF fail2] fail1 fail2
  show ?thesis
    by (simp add: Let_def fresh_matcher_def context_matcher_def given_bar_def and_bar_def)
qed


section \<open>Auxiliary facts about registration and the builder\<close>

lemma ordered_set_snoc:
  "ordered_set (xs @ [x]) = (if x \<in> set (ordered_set xs) then ordered_set xs else ordered_set xs @ [x])"
  by (simp add: ordered_set_def)

lemma set_ordered_set: "set (ordered_set xs) = set xs"
  by (induction xs rule: rev_induct) (auto simp: ordered_set_snoc, simp add: ordered_set_def)

lemma distinct_ordered_set: "distinct (ordered_set xs)"
  by (induction xs rule: rev_induct) (simp add: ordered_set_def, simp add: ordered_set_snoc)

lemma fold_ordered_set_acc:
  "fold (\<lambda>x acc. if x \<in> set acc then acc else acc @ [x]) xs acc
     = acc @ filter (\<lambda>y. y \<notin> set acc) (ordered_set xs)"
proof (induction xs rule: rev_induct)
  case Nil
  then show ?case by (simp add: ordered_set_def)
next
  case (snoc x xs)
  then show ?case
    by (auto simp: ordered_set_snoc)
qed

lemma ordered_set_Cons:
  "ordered_set (x # xs) = x # filter (\<lambda>y. y \<noteq> x) (ordered_set xs)"
  using fold_ordered_set_acc [of xs "[x]"] by (simp add: ordered_set_def)

lemma ordered_set_Nil: "ordered_set [] = []"
  by (simp add: ordered_set_def)

lemma set_set_add:
  "set (set_add sl x s) =
     (if obj_id x \<in> obj_id ` set s then set s else insert x (set s))"
  by (simp add: set_add_def set_insort_key)

lemma length_set_add:
  "length (set_add sl x s) =
     (if obj_id x \<in> obj_id ` set s then length s else Suc (length s))"
  by (simp add: set_add_def)

lemma set_add_idem: "set_add sl d (set_add sl d s) = set_add sl d s"
proof -
  have "obj_id d \<in> obj_id ` set (set_add sl d s)"
    by (simp add: set_set_add)
  then show ?thesis
    by (subst set_add_def) simp
qed

lemma set_add_single: "set_add sl d [] = [d]"
  by (simp add: set_add_def)

lemma registered_register:
  "registered (register_step_definition sl d L) = set_add sl d (registered L)"
  by (simp add: registered_def register_step_definition_def setdefault_step_registry_fixture_def
        Let_def split: option.splits)

lemma register_idem:
  "register_step_definition sl d (register_step_definition sl d L)
     = register_step_definition sl d L"
  by (simp add: register_step_definition_def setdefault_step_registry_fixture_def Let_def
        set_add_idem split: option.splits)

lemma registered_empty: "registered Map.empty = []"
  by (simp add: registered_def)

lemma registered_decorator:
  "registered (caller_module_locals (snd (decorator gp ty pl cv pfm pd tfs lib f env))) =
     set_add (table_slot env)
       \<lparr>obj_id = next_id env, func = f, type' = ty, parser = gp pl, converters = cv,
        params_fixtures_mapping = pfm, param_defaults = pd, target_fixtures = tfs,
        liberal = lib\<rparr>
       (registered (caller_module_locals env))"
  by (simp add: decorator_def Let_def registered_register)

lemma decorator_next_id:
  "next_id (snd (decorator gp ty pl cv pfm pd tfs lib f env)) = Suc (next_id env)"
  "table_slot (snd (decorator gp ty pl cv pfm pd tfs lib f env)) = table_slot env"
  by (simp_all add: decorator_def Let_def)

lemma registered_decorator_empty_env:
  "registered (caller_module_locals
      (snd (decorator gp ty pl cv pfm pd tfs lib f (empty_env sl)))) =
   [\<lparr>obj_id = 0, func = f, type' = ty, parser = gp pl, converters = cv,
     params_fixtures_mapping = pfm, param_defaults = pd, target_fixtures = tfs,
     liberal = lib\<rparr>]"
  by (simp add: registered_decorator)
     (simp add: empty_env_def registered_empty set_add_single)

lemma step_registry_decorator_empty_env:
  "caller_module_locals
      (snd (decorator gp ty pl cv pfm pd tfs lib f (empty_env sl))) ''step_registry'' =
   Some (Registry
     [\<lparr>obj_id = 0, func = f, type' = ty, parser = gp pl, converters = cv,
       params_fixtures_mapping = pfm, param_defaults = pd, target_fixtures = tfs,
       liberal = lib\<rparr>] None)"
  by (simp add: decorator_def Let_def register_step_definition_def
        setdefault_step_registry_fixture_def empty_env_def set_add_single)

lemma registered_given_foo_twice:
  "registered (caller_module_locals (given_foo_twice_env sl)) =
     set_add sl (given_foo_definition\<lparr>obj_id := 1\<rparr>) [given_foo_definition]"
  by (simp add: given_foo_twice_env_def given_decorator_def decorator_builder_def Let_def
        registered_decorator decorator_next_id registered_decorator_empty_env)
     (simp add: empty_env_def given_foo_definition_def ordered_set_def registered_empty
        set_add_single)

section \<open>Properties of definitions, registries and decorators\<close>

text \<open>
  Claim C3 as stated does not hold: \<^verbatim>\<open>Definition\<close> is declared with \<^verbatim>\<open>eq=False\<close>, so the
  set of a registry tells definitions apart by identity. One decorator applied twice to
  one handler stores two definitions that agree in every attribute, whichever way the
  set iterates; so does registering two objects with equal attributes directly.
\<close>

theorem C3_counterexample:
  "length (registered (caller_module_locals (given_foo_twice_env slot_ascending))) = 2 \<and>
   length (registered (caller_module_locals (given_foo_twice_env slot_descending))) = 2 \<and>
   set (registered (caller_module_locals (given_foo_twice_env slot_ascending)))
     = {given_foo_definition, given_foo_definition\<lparr>obj_id := 1\<rparr>} \<and>
   set (registered (caller_module_locals (given_foo_twice_env slot_descending)))
     = {given_foo_definition, given_foo_definition\<lparr>obj_id := 1\<rparr>} \<and>
   length (registered (register_step_definition slot_ascending (action_liberal_foo\<lparr>obj_id := 5\<rparr>)
             (register_step_definition slot_ascending action_liberal_foo Map.empty))) = 2"
  by (simp add: registered_given_foo_twice registered_register registered_empty
        length_set_add set_set_add)
     (auto simp: given_foo_definition_def action_liberal_foo_def)

text \<open>
  Claim C3, amended. Registering the same definition object twice leaves one entry:
  registration is idempotent on one object. A definition becomes a new member, and the
  number of entries grows by one, unless an object of the same identity is already
  there, whatever its attributes; registering two definitions into a new registry gives
  one entry if they are the same object and two otherwise. Nothing is said about the
  order of the entries.
\<close>

theorem C3_dedup_by_identity:
  "register_step_definition sl d (register_step_definition sl d L)
     = register_step_definition sl d L \<and>
   set (registered (register_step_definition sl d L)) =
     (if obj_id d \<in> obj_id ` set (registered L) then set (registered L)
      else insert d (set (registered L))) \<and>
   length (registered (register_step_definition sl d L)) =
     (if obj_id d \<in> obj_id ` set (registered L) then length (registered L)
      else Suc (length (registered L))) \<and>
   length (registered (register_step_definition sl d2
             (register_step_definition sl d1 Map.empty))) =
     (if obj_id d2 = obj_id d1 then 1 else 2)"
  by (simp add: register_idem registered_register set_set_add length_set_add registered_empty)

theorem C3_dedup_by_identity_witness:
  "length (registered (register_step_definition slot_descending action_liberal_foo
      (register_step_definition slot_descending action_liberal_foo Map.empty))) = 1 \<and>
   length (registered (register_step_definition slot_descending context_foo
      (register_step_definition slot_descending action_liberal_foo Map.empty))) = 2 \<and>
   set (registered (register_step_definition slot_descending context_foo
      (register_step_definition slot_descending action_liberal_foo Map.empty)))
     = {context_foo, action_liberal_foo} \<and>
   length (registered (register_step_definition slot_ascending
      (action_liberal_foo\<lparr>obj_id := 5\<rparr>)
      (register_step_definition slot_ascending action_liberal_foo Map.empty))) = 2"
  using C3_dedup_by_identity [of slot_descending action_liberal_foo Map.empty
          action_liberal_foo action_liberal_foo]
        C3_dedup_by_identity [of slot_descending context_foo
          "register_step_definition slot_descending action_liberal_foo Map.empty"
          context_foo action_liberal_foo]
        C3_dedup_by_identity [of slot_ascending action_liberal_foo Map.empty
          "action_liberal_foo\<lparr>obj_id := 5\<rparr>" action_liberal_foo]
  by (simp add: registered_empty action_liberal_foo_def context_foo_def)

text \<open>
  Claim C4 at the input where the code departs from it. \<^verbatim>\<open>step\<close> passes
  \<^verbatim>\<open>StepType.UNSPECIFIED if liberal else StepType.UNKNOWN\<close>, so \<^verbatim>\<open>step("foo")\<close> without a
  liberal flag registers a definition of type \<open>UNKNOWN\<close>: under the default
  configuration the unspecified matcher rejects it under the context \<open>CONTEXT\<close>, and
  the steps \<^verbatim>\<open>Given foo\<close> and \<^verbatim>\<open>Then foo\<close> end in \<open>MatchNotFoundError\<close>, although the
  docstring of \<^verbatim>\<open>step\<close> calls it a decorator that can be used with any keyword. With the
  flag \<^verbatim>\<open>True\<close> the type is \<open>UNSPECIFIED\<close> and \<^verbatim>\<open>Given foo\<close> finds the definition.
\<close>

theorem C4_step_without_flag_not_found:
  "map type' (registered (caller_module_locals (step_foo_env None))) = [Some UNKNOWN] \<and>
   map (unspecified_matcher context_matcher)
     (registered (caller_module_locals (step_foo_env None))) = [False] \<and>
   outcome (call fresh_matcher ''feature'' ''scenario'' given_foo None
              (caller_module_locals (step_foo_env None) ''step_registry''))
     = Inl MatchNotFoundError \<and>
   outcome (call fresh_matcher ''feature'' ''scenario'' then_foo None
              (caller_module_locals (step_foo_env None) ''step_registry''))
     = Inl MatchNotFoundError \<and>
   map type' (registered (caller_module_locals (step_foo_env (Some True))))
     = [Some UNSPECIFIED] \<and>
   outcome (call fresh_matcher ''feature'' ''scenario'' given_foo None
              (caller_module_locals (step_foo_env (Some True)) ''step_registry''))
     = Inr unspecified_step_foo"
proof -
  have reg: "caller_module_locals (step_foo_env lib) ''step_registry'' =
      Some (Registry
        [\<lparr>obj_id = 0, func = ''handler'',
          type' = (if lib = Some True then Some UNSPECIFIED else Some UNKNOWN),
          parser = get_parser_literal ''foo'', converters = Map.empty,
          params_fixtures_mapping = InjectFlag True, param_defaults = Map.empty,
          target_fixtures = [], liberal = lib\<rparr>] None)" for lib
    by (simp add: step_foo_env_def step_decorator_def decorator_builder_def Let_def
          step_registry_decorator_empty_env ordered_set_def)
  show ?thesis
    by (simp add: call_outcome reg registered_def)
       (simp add: matcher_after_call propagate_context_def step_definitions_Some
          step_definitions_None strict_matcher_def unspecified_matcher_def liberal_matcher_def
          is_step_definition_liberal_def context_matcher_def fresh_matcher_def
          default_config_def given_foo_def then_foo_def get_parser_literal_def
          unspecified_step_foo_def)
qed

text \<open>
  Claim C7. The parameters of a step: for every name, the parsed value of that name
  passed through the converter registered for the name (unchanged without one) if the
  parser reports the name, else the default value of the name if there is one. Where the
  parser reports no arguments at all, the parsed arguments are the empty mapping. The
  names with a parameter are those with a default or with a parsed value.
\<close>

theorem C7_get_parameters:
  "get_parameters d s arg =
     (case (case parse_arguments (parser d) (name s) of None \<Rightarrow> Map.empty | Some args \<Rightarrow> args) arg of
        Some v \<Rightarrow> Some ((case converters d arg of None \<Rightarrow> (\<lambda>x. x) | Some c \<Rightarrow> c) v)
      | None \<Rightarrow> param_defaults d arg) \<and>
   dom (get_parameters d s) =
     dom (param_defaults d) \<union>
     dom (case parse_arguments (parser d) (name s) of None \<Rightarrow> Map.empty | Some args \<Rightarrow> args)"
  by (auto simp: get_parameters_def Let_def map_add_def dom_def split: option.splits)

theorem C7_get_parameters_witness:
  "get_parameters count_definition given_foo ''n'' = Some 6 \<and>
   get_parameters count_definition given_foo ''k'' = Some 5 \<and>
   get_parameters count_definition given_foo ''m'' = Some 7 \<and>
   get_parameters count_definition given_foo ''x'' = None \<and>
   get_parameters action_liberal_foo given_foo ''n'' = None"
  using C7_get_parameters [of count_definition given_foo "''n''"]
        C7_get_parameters [of count_definition given_foo "''k''"]
        C7_get_parameters [of count_definition given_foo "''m''"]
        C7_get_parameters [of count_definition given_foo "''x''"]
        C7_get_parameters [of action_liberal_foo given_foo "''n''"]
  by (simp add: count_definition_def count_parser_def given_foo_def action_liberal_foo_def
        foo_parser_def)

text \<open>
  Claim C8. The builder warns once if both \<^verbatim>\<open>target_fixture\<close> and \<^verbatim>\<open>target_fixtures\<close> are
  given, and not otherwise. The definition that its decorator registers has as target
  fixtures the single name, if given, followed by the list, if given, where only the
  first occurrence of every name is kept: the result has no duplicates, has the same
  members, and starts with the first name, followed by the result for the rest without
  that name. With \<^verbatim>\<open>target_fixture="X"\<close> and \<^verbatim>\<open>target_fixtures=["Y", "X"]\<close> the list is
  \<^verbatim>\<open>["X", "Y"]\<close>, with one warning.
\<close>

theorem C8_target_fixtures:
  "fst (decorator_builder gp ty pl cv tf tfs pfm pd lib) =
     (if tf \<noteq> None \<and> tfs \<noteq> None
      then [Both_target_fixture_and_target_fixtures_are_specified] else []) \<and>
   map target_fixtures
     (registered (caller_module_locals
        (snd (snd (decorator_builder gp ty pl cv tf tfs pfm pd lib) f (empty_env sl))))) =
     [ordered_set ((case tf of Some t \<Rightarrow> [t] | None \<Rightarrow> []) @
                   (case tfs of Some ts \<Rightarrow> ts | None \<Rightarrow> []))] \<and>
   ordered_set ([] :: string list) = [] \<and>
   ordered_set (x # xs) = x # filter (\<lambda>y. y \<noteq> x) (ordered_set xs) \<and>
   distinct (ordered_set xs) \<and> set (ordered_set xs) = set xs \<and>
   fst (decorator_builder gp ty pl cv (Some ''X'') (Some [''Y'', ''X'']) pfm pd lib) =
     [Both_target_fixture_and_target_fixtures_are_specified] \<and>
   map target_fixtures
     (registered (caller_module_locals
        (snd (snd (decorator_builder gp ty pl cv (Some ''X'') (Some [''Y'', ''X'']) pfm pd lib)
                f (empty_env sl))))) = [[''X'', ''Y'']]"
proof -
  have reg: "map target_fixtures
     (registered (caller_module_locals
        (snd (snd (decorator_builder gp ty pl cv a b pfm pd lib) f (empty_env sl))))) =
     [ordered_set ((case a of Some t \<Rightarrow> [t] | None \<Rightarrow> []) @
                   (case b of Some ts \<Rightarrow> ts | None \<Rightarrow> []))]" for a b
    by (simp add: decorator_builder_def Let_def registered_decorator_empty_env)
  have w: "fst (decorator_builder gp ty pl cv a b pfm pd lib) =
     (if a \<noteq> None \<and> b \<noteq> None
      then [Both_target_fixture_and_target_fixtures_are_specified] else [])" for a b
    by (simp add: decorator_builder_def Let_def)
  have ex: "ordered_set [''X'', ''Y'', ''X''] = [''X'', ''Y'']"
    by (simp add: ordered_set_def)
  show ?thesis
    using reg [of tf tfs] reg [of "Some ''X''" "Some [''Y'', ''X'']"] w [of tf tfs]
      w [of "Some ''X''" "Some [''Y'', ''X'']"] ex
    by (simp add: ordered_set_Nil ordered_set_Cons [of x xs] distinct_ordered_set
          set_ordered_set)
qed

theorem C8_target_fixtures_witness:
  "fst (decorator_builder get_parser_literal (Some CONTEXT) ''foo'' None (Some ''X'')
          (Some [''Y'', ''X'']) (InjectFlag True) None None)
     = [Both_target_fixture_and_target_fixtures_are_specified] \<and>
   map target_fixtures
     (registered (caller_module_locals
        (snd (snd (decorator_builder get_parser_literal (Some CONTEXT) ''foo'' None (Some ''X'')
                     (Some [''Y'', ''X'']) (InjectFlag True) None None)
                ''handler'' (empty_env slot_ascending))))) = [[''X'', ''Y'']] \<and>
   fst (decorator_builder get_parser_literal (Some CONTEXT) ''foo'' None None
          (Some [''Y'', ''X'', ''Y'']) (InjectFlag True) None None) = [] \<and>
   map target_fixtures
     (registered (caller_module_locals
        (snd (snd (decorator_builder get_parser_literal (Some CONTEXT) ''foo'' None None
                     (Some [''Y'', ''X'', ''Y'']) (InjectFlag True) None None)
                ''handler'' (empty_env slot_ascending))))) = [[''Y'', ''X'']]"
  using C8_target_fixtures [of get_parser_literal "Some CONTEXT" "''foo''" None "Some ''X''"
          "Some [''Y'', ''X'']" "InjectFlag True" None None "''handler''" slot_ascending "''Y''"
          "[''X'', ''Y'']"]
        C8_target_fixtures [of get_parser_literal "Some CONTEXT" "''foo''" None None
          "Some [''Y'', ''X'', ''Y'']" "InjectFlag True" None None "''handler''" slot_ascending
          "''Y''" "[''X'', ''Y'']"]
  by (simp add: ordered_set_def)

end
